theory Spec2Isabelle
  imports Main
begin

section \<open>The Go library functions the engine calls\<close>

text \<open>
  Go strings are byte sequences: \<^typ>\<open>string\<close>. The functions below model the calls into
  the packages \<^verbatim>\<open>strings\<close> and \<^verbatim>\<open>strconv\<close> that gyaml.go and fast_parser.go make, under
  the names the source uses.
\<close>

definition strings_HasPrefix :: "string \<Rightarrow> string \<Rightarrow> bool" where
  "strings_HasPrefix s p = (length p \<le> length s \<and> take (length p) s = p)"

definition strings_HasSuffix :: "string \<Rightarrow> string \<Rightarrow> bool" where
  "strings_HasSuffix s p = (length p \<le> length s \<and> drop (length s - length p) s = p)"

text \<open>\<^verbatim>\<open>strings.Index\<close>: the position of the first occurrence, \<open>None\<close> for Go's \<open>-1\<close>.\<close>

fun strings_Index :: "string \<Rightarrow> string \<Rightarrow> nat option" where
  "strings_Index [] sub = (if sub = [] then Some 0 else None)"
| "strings_Index (c # s) sub =
     (if strings_HasPrefix (c # s) sub then Some 0
      else map_option Suc (strings_Index s sub))"

definition strings_Contains :: "string \<Rightarrow> string \<Rightarrow> bool" where
  "strings_Contains s sub = (strings_Index s sub \<noteq> None)"

definition strings_ContainsAny :: "string \<Rightarrow> string \<Rightarrow> bool" where
  "strings_ContainsAny s chars = list_ex (\<lambda>c. c \<in> set chars) s"

text \<open>\<^verbatim>\<open>strings.Split\<close> and \<^verbatim>\<open>strings.Join\<close>, for the one-byte separators the source passes.\<close>

fun strings_Split :: "string \<Rightarrow> char \<Rightarrow> string list" where
  "strings_Split [] sep = [[]]"
| "strings_Split (c # s) sep =
     (if c = sep then [] # strings_Split s sep
      else (case strings_Split s sep of
              [] \<Rightarrow> [[c]]
            | l # ls \<Rightarrow> (c # l) # ls))"

fun strings_Join :: "string list \<Rightarrow> string \<Rightarrow> string" where
  "strings_Join [] sep = []"
| "strings_Join [l] sep = l"
| "strings_Join (l # ls) sep = l @ sep @ strings_Join ls sep"

text \<open>\<^verbatim>\<open>strings.TrimLeft\<close> and \<^verbatim>\<open>strings.Trim\<close> with a cutset of ASCII bytes.\<close>

definition strings_TrimLeft :: "string \<Rightarrow> string \<Rightarrow> string" where
  "strings_TrimLeft s cutset = dropWhile (\<lambda>c. c \<in> set cutset) s"

definition strings_Trim :: "string \<Rightarrow> string \<Rightarrow> string" where
  "strings_Trim s cutset =
     rev (dropWhile (\<lambda>c. c \<in> set cutset) (rev (dropWhile (\<lambda>c. c \<in> set cutset) s)))"

text \<open>
  \<^verbatim>\<open>strings.TrimSpace\<close> removes the white space of Unicode at both ends: the six ASCII
  bytes, and the UTF-8 encodings of U+0085, U+00A0, U+1680, U+2000 to U+200A, U+2028,
  U+2029, U+202F, U+205F and U+3000. \<open>spaceWidth\<close> is the width in bytes of a white-space
  rune at the front of the string (0 when there is none), \<open>spaceWidthLast\<close> the same at
  its end.
\<close>

definition asciiSpace :: "char \<Rightarrow> bool" where
  "asciiSpace c = (c \<in> set [CHR 0x09, CHR 0x0A, CHR 0x0B, CHR 0x0C, CHR 0x0D, CHR 0x20])"

definition unicodeSpaces2 :: "string list" where
  "unicodeSpaces2 = [[CHR 0xC2, CHR 0x85], [CHR 0xC2, CHR 0xA0]]"

definition unicodeSpaces3 :: "string list" where
  "unicodeSpaces3 =
     [[CHR 0xE1, CHR 0x9A, CHR 0x80],
      [CHR 0xE2, CHR 0x80, CHR 0x80], [CHR 0xE2, CHR 0x80, CHR 0x81],
      [CHR 0xE2, CHR 0x80, CHR 0x82], [CHR 0xE2, CHR 0x80, CHR 0x83],
      [CHR 0xE2, CHR 0x80, CHR 0x84], [CHR 0xE2, CHR 0x80, CHR 0x85],
      [CHR 0xE2, CHR 0x80, CHR 0x86], [CHR 0xE2, CHR 0x80, CHR 0x87],
      [CHR 0xE2, CHR 0x80, CHR 0x88], [CHR 0xE2, CHR 0x80, CHR 0x89],
      [CHR 0xE2, CHR 0x80, CHR 0x8A], [CHR 0xE2, CHR 0x80, CHR 0xA8],
      [CHR 0xE2, CHR 0x80, CHR 0xA9], [CHR 0xE2, CHR 0x80, CHR 0xAF],
      [CHR 0xE2, CHR 0x81, CHR 0x9F], [CHR 0xE3, CHR 0x80, CHR 0x80]]"

definition spaceWidth :: "string \<Rightarrow> nat" where
  "spaceWidth s =
     (case s of
        [] \<Rightarrow> 0
      | c # _ \<Rightarrow>
          if asciiSpace c then 1
          else if 2 \<le> length s \<and> take 2 s \<in> set unicodeSpaces2 then 2
          else if 3 \<le> length s \<and> take 3 s \<in> set unicodeSpaces3 then 3
          else 0)"

definition spaceWidthLast :: "string \<Rightarrow> nat" where
  "spaceWidthLast s =
     (if s = [] then 0
      else if asciiSpace (last s) then 1
      else if 2 \<le> length s \<and> drop (length s - 2) s \<in> set unicodeSpaces2 then 2
      else if 3 \<le> length s \<and> drop (length s - 3) s \<in> set unicodeSpaces3 then 3
      else 0)"

function trimLeftSpace :: "string \<Rightarrow> string" where
  "trimLeftSpace s =
     (if spaceWidth s = 0 then s else trimLeftSpace (drop (spaceWidth s) s))"
  by pat_completeness auto
termination
  by (relation "measure length") (auto simp: spaceWidth_def split: list.splits if_splits)

function trimRightSpace :: "string \<Rightarrow> string" where
  "trimRightSpace s =
     (if spaceWidthLast s = 0 then s
      else trimRightSpace (take (length s - spaceWidthLast s) s))"
  by pat_completeness auto
termination
  by (relation "measure length") (auto simp: spaceWidthLast_def split: if_splits)

declare trimLeftSpace.simps [simp del] trimRightSpace.simps [simp del]

definition strings_TrimSpace :: "string \<Rightarrow> string" where
  "strings_TrimSpace s = trimRightSpace (trimLeftSpace s)"

text \<open>
  \<^verbatim>\<open>strings.ToLower\<close>, on the ASCII letters. The source only compares its result with
  the ASCII words \<open>true\<close>, \<open>yes\<close>, \<open>on\<close>, \<open>false\<close>, \<open>no\<close>, \<open>off\<close>, \<open>null\<close> and \<open>~\<close>; the only
  runes outside ASCII that Go lowers to an ASCII letter are U+0130 (to \<open>i\<close>) and U+212A
  (to \<open>k\<close>), which occur in none of these words, so leaving the bytes from 0x80 on
  unchanged decides every comparison as Go does.
\<close>

definition toLowerByte :: "char \<Rightarrow> char" where
  "toLowerByte c =
     (if 65 \<le> (of_char c :: nat) \<and> (of_char c :: nat) \<le> 90
      then char_of ((of_char c :: nat) + 32) else c)"

definition strings_ToLower :: "string \<Rightarrow> string" where
  "strings_ToLower s = map toLowerByte s"

text \<open>
  \<^verbatim>\<open>strconv.Itoa\<close> and \<^verbatim>\<open>strconv.FormatInt(v, 10)\<close>: the decimal numeral, with a minus sign
  for a negative number.
\<close>

fun digits :: "nat \<Rightarrow> string" where
  "digits n =
     (if n < 10 then [char_of (48 + n)]
      else digits (n div 10) @ [char_of (48 + n mod 10)])"

definition strconv_Itoa :: "int \<Rightarrow> string" where
  "strconv_Itoa i = (if i < 0 then CHR ''-'' # digits (nat (- i)) else digits (nat i))"

text \<open>
  \<^verbatim>\<open>strconv.Atoi\<close> on a 64-bit platform: an optional sign, then one decimal digit or more,
  and the value must fit a signed 64-bit integer; \<open>None\<close> is the error return.
\<close>

definition isDigit :: "char \<Rightarrow> bool" where
  "isDigit c = (48 \<le> (of_char c :: nat) \<and> (of_char c :: nat) \<le> 57)"

definition digitsValue :: "string \<Rightarrow> int" where
  "digitsValue ds = foldl (\<lambda>n c. n * 10 + ((of_char c :: int) - 48)) 0 ds"

definition strconv_Atoi :: "string \<Rightarrow> int option" where
  "strconv_Atoi s =
     (let neg = (s \<noteq> [] \<and> hd s = CHR ''-'');
          ds = (if s \<noteq> [] \<and> (hd s = CHR ''-'' \<or> hd s = CHR ''+'') then tl s else s)
      in if ds = [] \<or> \<not> list_all isDigit ds then None
         else let n = digitsValue ds
              in if neg then (if n \<le> 9223372036854775808 then Some (- n) else None)
                 else (if n \<le> 9223372036854775807 then Some n else None))"

text \<open>
  A slice expression \<^verbatim>\<open>s[lo:hi]\<close> panics at run time unless \<open>lo \<le> hi \<le> len(s)\<close>.
\<close>

datatype go_panic = SliceBoundsOutOfRange nat nat

definition slice :: "string \<Rightarrow> nat \<Rightarrow> nat \<Rightarrow> go_panic + string" where
  "slice s lo hi =
     (if lo \<le> hi \<and> hi \<le> length s then Inr (take (hi - lo) (drop lo s))
      else Inl (SliceBoundsOutOfRange lo hi))"

section \<open>Pattern matcher\<close>

text \<open>
  \<^verbatim>\<open>deepMatch\<close> of gyaml.go: a loop over the pattern, recursing (with backtracking over
  every suffix of the string) at a star.
\<close>

fun deepMatch :: "string \<Rightarrow> string \<Rightarrow> bool" where
  "deepMatch str [] = (str = [])"
| "deepMatch str (p # pattern) =
     (if p = CHR ''*'' then
        (if pattern = [] then True
         else list_ex (\<lambda>i. deepMatch (drop i str) pattern) [0..<Suc (length str)])
      else if p = CHR ''?'' then
        (case str of [] \<Rightarrow> False | _ # str' \<Rightarrow> deepMatch str' pattern)
      else
        (case str of [] \<Rightarrow> False
         | s # str' \<Rightarrow> if s \<noteq> p then False else deepMatch str' pattern))"

definition wildcard :: "string \<Rightarrow> string \<Rightarrow> bool" where
  "wildcard str pattern = deepMatch str pattern"

definition matchPattern :: "string \<Rightarrow> string \<Rightarrow> bool" where
  "matchPattern str pattern = wildcard str pattern"


section \<open>Data model\<close>

text \<open>
  The result kinds of gyaml.go, in the order of the \<^verbatim>\<open>iota\<close> declaration (\<open>False\<close>, \<open>String\<close>
  and \<open>True\<close> carry a suffix: the plain names are taken).
\<close>

datatype Type = Null | FalseT | Number | StringT | TrueT | YAML

text \<open>
  \<^verbatim>\<open>float64\<close> is kept abstract: it is the type parameter \<open>'f\<close>, and every operation on
  it belongs to the host below.
\<close>

record 'f Result =
  Type :: Type
  Raw :: string
  Str :: string
  Num :: 'f
  Index :: int
  Indexes :: "int list"

text \<open>
  The generic tree that \<^verbatim>\<open>yaml.Unmarshal\<close> stores into an \<^verbatim>\<open>interface{}\<close>: \<open>YNull\<close> is the
  nil interface, \<open>YInt\<close> an \<^verbatim>\<open>int\<close> (or \<^verbatim>\<open>int64\<close>, which the source treats alike),
  \<open>YSeq\<close> a \<^verbatim>\<open>[]interface{}\<close> (nil or not), \<open>YMap\<close> a \<^verbatim>\<open>map[string]interface{}\<close> as the list
  of its entries in the order the map is iterated (keys distinct), and \<open>YOther\<close> any
  other dynamic type, which the source only meets in its \<^verbatim>\<open>default\<close> branches.
\<close>

datatype 'f yval =
    YNull
  | YBool bool
  | YInt int
  | YFloat 'f
  | YStr string
  | YSeq "'f yval list"
  | YMap "(string \<times> 'f yval) list"
  | YOther nat

text \<open>
  The host: the YAML library (package \<^verbatim>\<open>gopkg.in/yaml.v3\<close>, not part of the repository)
  and the floating-point operations of \<^verbatim>\<open>strconv\<close>, \<^verbatim>\<open>fmt\<close> and the language. Every
  function of the engine takes the host as its first argument. \<open>yaml_Unmarshal\<close> returns
  \<open>None\<close> for an error; \<open>strconv_ParseFloat\<close> returns the value together with
  \<^verbatim>\<open>err == nil\<close>; \<open>float_lt\<close> and \<open>float_le\<close> are \<^verbatim>\<open><\<close> and \<^verbatim>\<open><=\<close> on \<^verbatim>\<open>float64\<close>;
  \<open>fmt_Sprint_other\<close> is \<^verbatim>\<open>fmt.Sprint\<close> on the values that are not nil, a bool, an int or
  a string.
\<close>

record 'f host =
  yaml_Unmarshal :: "string \<Rightarrow> 'f yval option"
  yaml_Marshal :: "'f yval \<Rightarrow> string"
  strconv_ParseFloat :: "string \<Rightarrow> 'f \<times> bool"
  strconv_FormatFloat :: "'f \<Rightarrow> string"
  float64 :: "int \<Rightarrow> 'f"
  float_lt :: "'f \<Rightarrow> 'f \<Rightarrow> bool"
  float_le :: "'f \<Rightarrow> 'f \<Rightarrow> bool"
  fmt_Sprint_other :: "'f yval \<Rightarrow> string"

text \<open>The zero value \<^verbatim>\<open>Result{}\<close>.\<close>

definition Result0 :: "'f host \<Rightarrow> 'f Result" where
  "Result0 h = \<lparr>Type = Null, Raw = [], Str = [], Num = float64 h 0, Index = 0, Indexes = []\<rparr>"

definition Exists :: "'f Result \<Rightarrow> bool" where
  "Exists t = (Type t \<noteq> Null \<or> length (Raw t) \<noteq> 0)"

section \<open>Fast scalar path (fast\_parser.go)\<close>

definition newline :: char where
  "newline = CHR 0x0A"

text \<open>\<^verbatim>\<open>len(line) - len(strings.TrimLeft(line, " \t"))\<close>.\<close>

definition indentOf :: "string \<Rightarrow> int" where
  "indentOf line = int (length line) - int (length (strings_TrimLeft line [CHR 0x20, CHR 0x09]))"

definition extractValue :: "'f host \<Rightarrow> string \<Rightarrow> go_panic + ('f Result \<times> bool)" where
  "extractValue h value0 =
     (let value = strings_TrimSpace value0 in
      if value = [] then Inr (Result0 h, False)
      else if (strings_HasPrefix value [CHR 0x22] \<and> strings_HasSuffix value [CHR 0x22]) \<or>
              (strings_HasPrefix value [CHR 0x27] \<and> strings_HasSuffix value [CHR 0x27]) then
        (case slice value 1 (length value - 1) of
           Inl p \<Rightarrow> Inl p
         | Inr unquoted \<Rightarrow> Inr ((Result0 h)\<lparr>Type := StringT, Str := unquoted, Raw := value\<rparr>, True))
      else
        let lower = strings_ToLower value in
        if lower = ''true'' \<or> lower = ''yes'' \<or> lower = ''on'' then
          Inr ((Result0 h)\<lparr>Type := TrueT, Raw := value\<rparr>, True)
        else if lower = ''false'' \<or> lower = ''no'' \<or> lower = ''off'' then
          Inr ((Result0 h)\<lparr>Type := FalseT, Raw := value\<rparr>, True)
        else if lower = ''null'' \<or> lower = ''~'' \<or> value = [] then
          Inr ((Result0 h)\<lparr>Type := Null, Raw := value\<rparr>, True)
        else
          (case strconv_ParseFloat h value of
             (num, True) \<Rightarrow> Inr ((Result0 h)\<lparr>Type := Number, Num := num, Raw := value\<rparr>, True)
           | (num, False) \<Rightarrow> Inr ((Result0 h)\<lparr>Type := StringT, Str := value, Raw := value\<rparr>, True)))"

text \<open>
  \<^verbatim>\<open>parseArrayElements\<close>: one pass over the lines. The loop state is \<open>(elements,
  currentElement, inElement, baseIndent, elementIndent)\<close>; \<open>parseArrayElements_step\<close> is
  the loop body.
\<close>

fun parseArrayElements_step ::
  "string list \<times> string \<times> bool \<times> int \<times> int \<Rightarrow> string \<Rightarrow> string list \<times> string \<times> bool \<times> int \<times> int"
where
  "parseArrayElements_step (elements, currentElement, inElement, baseIndent, elementIndent) line =
     (let trimmed = strings_TrimSpace line in
      if trimmed = [] \<or> strings_HasPrefix trimmed ''#'' then
        (elements, currentElement, inElement, baseIndent, elementIndent)
      else
        let indent = indentOf line;
            baseIndent = (if baseIndent = - 1 then indent else baseIndent)
        in
        if strings_HasPrefix trimmed ''- '' \<and> indent = baseIndent then
          (let flush = (inElement \<and> currentElement \<noteq> []);
               elements = (if flush then elements @ [currentElement] else elements);
               currentElement = (if flush then [] else currentElement);
               value = strings_TrimSpace (drop 2 trimmed)
           in (elements, currentElement @ value, True, baseIndent, indent))
        else if inElement \<and> indent > elementIndent then
          (elements,
           (if currentElement \<noteq> [] then currentElement @ [newline] else currentElement) @ line,
           inElement, baseIndent, elementIndent)
        else if inElement \<and> indent \<le> elementIndent then
          (if strings_HasPrefix trimmed ''- '' \<and> indent = baseIndent then
             (elements @ [currentElement], strings_TrimSpace (drop 2 trimmed), True,
              baseIndent, indent)
           else (elements, currentElement, inElement, baseIndent, elementIndent))
        else (elements, currentElement, inElement, baseIndent, elementIndent))"

definition parseArrayElements :: "string \<Rightarrow> string list" where
  "parseArrayElements yaml =
     (case foldl parseArrayElements_step ([], [], False, - 1, - 1) (strings_Split yaml newline) of
        (elements, currentElement, _) \<Rightarrow>
          if currentElement \<noteq> [] then elements @ [currentElement] else elements)"

definition countArrayElements :: "string \<Rightarrow> int" where
  "countArrayElements yaml = int (length (parseArrayElements yaml))"

text \<open>
  The three loops of \<^verbatim>\<open>fastParseKey\<close>. \<open>firstIndent\<close> is the first loop: the indentation
  of the first line that is neither blank nor a comment, \<open>-1\<close> when there is none.
  \<open>findKeyLine\<close> is the main loop up to the line that holds the key: it returns the
  trimmed line, its indentation and the lines after it (every path through the rest of
  the loop body returns). \<open>collectBlock\<close> and \<open>collectNested\<close> are the inner loops over
  the lines after the key.
\<close>

fun firstIndent :: "string list \<Rightarrow> int" where
  "firstIndent [] = - 1"
| "firstIndent (line # rest) =
     (let trimmed = strings_TrimSpace line in
      if trimmed = [] \<or> strings_HasPrefix trimmed ''#'' then firstIndent rest
      else indentOf line)"

fun findKeyLine :: "int \<Rightarrow> string \<Rightarrow> string list \<Rightarrow> (string \<times> int \<times> string list) option" where
  "findKeyLine targetIndent keyWithColon [] = None"
| "findKeyLine targetIndent keyWithColon (line # rest) =
     (let trimmed = strings_TrimSpace line in
      if trimmed = [] \<or> strings_HasPrefix trimmed ''#'' then
        findKeyLine targetIndent keyWithColon rest
      else if indentOf line \<noteq> targetIndent then findKeyLine targetIndent keyWithColon rest
      else if \<not> strings_HasPrefix trimmed keyWithColon then
        findKeyLine targetIndent keyWithColon rest
      else Some (trimmed, indentOf line, rest))"

fun collectBlock :: "int \<Rightarrow> string list \<Rightarrow> string list" where
  "collectBlock indent [] = []"
| "collectBlock indent (nextLine # rest) =
     (if strings_TrimSpace nextLine = [] then collectBlock indent rest
      else if indentOf nextLine \<le> indent then []
      else if indentOf nextLine \<ge> indent + 2 then nextLine # collectBlock indent rest
      else collectBlock indent rest)"

text \<open>
  In \<open>collectNested\<close> the count of \<^verbatim>\<open>strings.Repeat\<close> is \<open>nextLineIndent - nextIndent\<close>,
  which the guard keeps from being negative.
\<close>

fun collectNested :: "int \<Rightarrow> string list \<Rightarrow> string list" where
  "collectNested indent [] = []"
| "collectNested indent (nextLine # rest) =
     (if strings_TrimSpace nextLine = [] then collectNested indent rest
      else if indentOf nextLine \<le> indent then []
      else if indentOf nextLine \<ge> indent + 2 then
        (replicate (nat (indentOf nextLine - (indent + 2))) (CHR 0x20)
           @ strings_TrimLeft nextLine [CHR 0x20, CHR 0x09])
        # collectNested indent rest
      else collectNested indent rest)"

text \<open>
  The branch of \<^verbatim>\<open>fastParseKey\<close> for the final key (\<^verbatim>\<open>depth == len(parts)-1\<close>), which does
  not recurse.
\<close>

definition fastParseKey_final ::
  "'f host \<Rightarrow> string \<Rightarrow> int \<Rightarrow> string list \<Rightarrow> go_panic + ('f Result \<times> bool)" where
  "fastParseKey_final h valuePart indent rest =
     (if valuePart \<noteq> [] then
        (let trimmed = strings_TrimSpace valuePart in
         if strings_HasPrefix trimmed ''{'' \<or> strings_HasPrefix trimmed ''['' \<or>
            strings_Contains valuePart '':'' then Inr (Result0 h, False)
         else extractValue h valuePart)
      else
        let blockLines = collectBlock indent rest in
        if length blockLines > 0 then
          (let firstBlockLine = strings_TrimSpace (hd blockLines) in
           if strings_HasPrefix firstBlockLine ''- '' \<or> strings_Contains firstBlockLine '': '' then
             Inr (Result0 h, False)
           else extractValue h (strings_Join blockLines [newline]))
        else Inr (Result0 h, False))"

text \<open>
  \<^verbatim>\<open>fastParsePath\<close>, \<^verbatim>\<open>fastParseKey\<close> and \<^verbatim>\<open>fastParseArrayIndex\<close>. \<open>depth\<close> counts up from 0,
  so the test \<^verbatim>\<open>depth == len(parts)-1\<close> is \<open>depth + 1 = length parts\<close>. A panic of
  \<^verbatim>\<open>extractValue\<close> propagates as \<open>Inl\<close>.
\<close>

function fastParsePath :: "'f host \<Rightarrow> string \<Rightarrow> string list \<Rightarrow> nat \<Rightarrow> go_panic + ('f Result \<times> bool)"
  and fastParseKey :: "'f host \<Rightarrow> string \<Rightarrow> string list \<Rightarrow> nat \<Rightarrow> string \<Rightarrow> go_panic + ('f Result \<times> bool)"
  and fastParseArrayIndex :: "'f host \<Rightarrow> string \<Rightarrow> string list \<Rightarrow> nat \<Rightarrow> int \<Rightarrow> go_panic + ('f Result \<times> bool)"
where
  "fastParsePath h yaml parts depth =
     (if depth \<ge> length parts then extractValue h yaml
      else
        (case strconv_Atoi (parts ! depth) of
           Some idx \<Rightarrow> fastParseArrayIndex h yaml parts depth idx
         | None \<Rightarrow>
             if parts ! depth = ''#'' then
               (if depth + 1 < length parts then Inr (Result0 h, False)
                else Inr ((Result0 h)\<lparr>Type := Number,
                                       Num := float64 h (countArrayElements yaml),
                                       Raw := strconv_Itoa (countArrayElements yaml)\<rparr>, True))
             else fastParseKey h yaml parts depth (parts ! depth)))"
| "fastParseKey h yaml parts depth key =
     (case findKeyLine (firstIndent (strings_Split yaml newline)) (key @ '':'')
             (strings_Split yaml newline) of
        None \<Rightarrow> Inr (Result0 h, False)
      | Some (trimmed, indent, rest) \<Rightarrow>
          if depth + 1 = length parts then
            fastParseKey_final h (strings_TrimSpace (drop (length (key @ '':'')) trimmed)) indent rest
          else if strings_TrimSpace (drop (length (key @ '':'')) trimmed) \<noteq> [] then
            fastParsePath h (strings_TrimSpace (drop (length (key @ '':'')) trimmed)) parts (depth + 1)
          else if length (collectNested indent rest) > 0 then
            fastParsePath h (strings_Join (collectNested indent rest) [newline]) parts (depth + 1)
          else Inr (Result0 h, False))"
| "fastParseArrayIndex h yaml parts depth index =
     (if index < 0 \<or> index \<ge> int (length (parseArrayElements yaml)) then Inr (Result0 h, False)
      else if depth + 1 = length parts then
        extractValue h (parseArrayElements yaml ! nat index)
      else fastParsePath h (parseArrayElements yaml ! nat index) parts (depth + 1))"
  by pat_completeness auto
termination
  by (relation "measure (\<lambda>x. case x of
          Inl (h, yaml, parts, depth) \<Rightarrow>
            2 * (length parts - depth) + (if depth < length parts then 1 else 0)
        | Inr (Inl (h, yaml, parts, depth, key)) \<Rightarrow>
            2 * (length parts - depth) + (if depth < length parts then 0 else 1)
        | Inr (Inr (h, yaml, parts, depth, index)) \<Rightarrow>
            2 * (length parts - depth) + (if depth < length parts then 0 else 1))")
     auto

declare fastParsePath.simps [simp del] fastParseKey.simps [simp del]
  fastParseArrayIndex.simps [simp del]

text \<open>\<^verbatim>\<open>splitPath\<close>: the loop state is \<open>(parts, current, escaped)\<close>.\<close>

fun splitPath_loop :: "string \<Rightarrow> string list \<Rightarrow> string \<Rightarrow> bool \<Rightarrow> string list" where
  "splitPath_loop [] parts current escaped =
     (if current \<noteq> [] then parts @ [current] else parts)"
| "splitPath_loop (ch # rest) parts current escaped =
     (if escaped then splitPath_loop rest parts (current @ [ch]) False
      else if ch = CHR 0x5C then splitPath_loop rest parts current True
      else if ch = CHR ''.'' then
        (if current \<noteq> [] then splitPath_loop rest (parts @ [current]) [] False
         else splitPath_loop rest parts current False)
      else splitPath_loop rest parts (current @ [ch]) False)"

definition splitPath :: "string \<Rightarrow> string list" where
  "splitPath path = (if path = [] then [] else splitPath_loop path [] [] False)"

fun hasComplexFeatures :: "string \<Rightarrow> bool" where
  "hasComplexFeatures [] = False"
| "hasComplexFeatures (c # rest) =
     (if c = CHR ''*'' \<or> c = CHR ''?'' \<or> c = CHR ''@'' \<or> c = CHR ''|'' then True
      else if c = CHR ''#'' \<and> rest \<noteq> [] \<and> hd rest = CHR ''('' then True
      else hasComplexFeatures rest)"

definition fastGet :: "'f host \<Rightarrow> string \<Rightarrow> string \<Rightarrow> go_panic + ('f Result \<times> bool)" where
  "fastGet h yaml path =
     (if length path = 0 then Inr ((Result0 h)\<lparr>Type := YAML, Raw := yaml\<rparr>, True)
      else if length (splitPath path) = 0 then Inr (Result0 h, False)
      else if hasComplexFeatures path then Inr (Result0 h, False)
      else
        (case fastParsePath h yaml (splitPath path) 0 of
           Inl p \<Rightarrow> Inl p
         | Inr (result, ok) \<Rightarrow>
             if \<not> ok then Inr (Result0 h, False)
             else if Type result = YAML \<or> Type result = Null then Inr (Result0 h, False)
             else Inr (result, True)))"


section \<open>Conversions between trees and results (gyaml.go)\<close>

definition valueToResult :: "'f host \<Rightarrow> 'f yval \<Rightarrow> 'f Result" where
  "valueToResult h val =
     (case val of
        YNull \<Rightarrow> (Result0 h)\<lparr>Type := Null\<rparr>
      | YBool v \<Rightarrow>
          if v then (Result0 h)\<lparr>Type := TrueT, Raw := ''true''\<rparr>
          else (Result0 h)\<lparr>Type := FalseT, Raw := ''false''\<rparr>
      | YInt v \<Rightarrow> (Result0 h)\<lparr>Type := Number, Num := float64 h v, Raw := strconv_Itoa v\<rparr>
      | YFloat v \<Rightarrow> (Result0 h)\<lparr>Type := Number, Num := v, Raw := strconv_FormatFloat h v\<rparr>
      | YStr v \<Rightarrow> (Result0 h)\<lparr>Type := StringT, Str := v, Raw := v\<rparr>
      | YSeq v \<Rightarrow> (Result0 h)\<lparr>Type := YAML, Raw := yaml_Marshal h (YSeq v)\<rparr>
      | YMap v \<Rightarrow> (Result0 h)\<lparr>Type := YAML, Raw := yaml_Marshal h (YMap v)\<rparr>
      | YOther v \<Rightarrow> (Result0 h)\<lparr>Type := YAML, Raw := yaml_Marshal h (YOther v)\<rparr>)"

text \<open>\<^verbatim>\<open>Result.Value\<close>; a text that does not parse gives nil.\<close>

definition Value :: "'f host \<Rightarrow> 'f Result \<Rightarrow> 'f yval" where
  "Value h t =
     (case Type t of
        FalseT \<Rightarrow> YBool False
      | Number \<Rightarrow> YFloat (Num t)
      | StringT \<Rightarrow> YStr (Str t)
      | TrueT \<Rightarrow> YBool True
      | YAML \<Rightarrow> (case yaml_Unmarshal h (Raw t) of None \<Rightarrow> YNull | Some data \<Rightarrow> data)
      | Null \<Rightarrow> YNull)"

definition isYAMLObject :: "string \<Rightarrow> bool" where
  "isYAMLObject s = strings_Contains s '': ''"

definition isYAMLArray :: "string \<Rightarrow> bool" where
  "isYAMLArray s = strings_HasPrefix (strings_TrimSpace s) ''- ''"

definition IsArray :: "'f Result \<Rightarrow> bool" where
  "IsArray t =
     (Type t = YAML \<and> length (Raw t) > 0 \<and> (hd (Raw t) = CHR ''['' \<or> isYAMLArray (Raw t)))"

text \<open>
  \<^verbatim>\<open>arrayOrMap\<close> as \<^verbatim>\<open>Array\<close> and \<^verbatim>\<open>Map\<close> call it (\<^verbatim>\<open>valueize\<close> false): the fields \<^verbatim>\<open>a\<close> and
  \<^verbatim>\<open>o\<close> of its result.
\<close>

definition arrayOrMap :: "'f host \<Rightarrow> 'f Result \<Rightarrow> 'f Result list \<times> (string \<times> 'f Result) list" where
  "arrayOrMap h t =
     (case yaml_Unmarshal h (Raw t) of
        None \<Rightarrow> ([], [])
      | Some data \<Rightarrow>
          (case data of
             YMap v \<Rightarrow> ([], map (\<lambda>(k, val). (k, valueToResult h val)) v)
           | YSeq v \<Rightarrow> (map (valueToResult h) v, [])
           | _ \<Rightarrow> ([], [])))"

definition Array :: "'f host \<Rightarrow> 'f Result \<Rightarrow> 'f Result list" where
  "Array h t =
     (if Type t = Null then []
      else if \<not> IsArray t then [t]
      else fst (arrayOrMap h t))"

definition Valid :: "'f host \<Rightarrow> string \<Rightarrow> bool" where
  "Valid h yaml =
     (if length (strings_TrimSpace yaml) = 0 then False else yaml_Unmarshal h yaml \<noteq> None)"

section \<open>Path tokenizer\<close>

record pathComponent =
  key :: string
  isWild :: bool
  isQuery :: bool
  query :: string
  isIndex :: bool
  index :: int
  isCount :: bool
  pipe :: string
  hasPipe :: bool
  multi :: bool

definition pathComponent0 :: pathComponent where
  "pathComponent0 =
     \<lparr>key = [], isWild = False, isQuery = False, query = [], isIndex = False, index = 0,
      isCount = False, pipe = [], hasPipe = False, multi = False\<rparr>"

definition parseComponent :: "string \<Rightarrow> pathComponent" where
  "parseComponent s =
     (if strings_ContainsAny s ''*?'' then pathComponent0\<lparr>key := s, isWild := True\<rparr>
      else
        (case strconv_Atoi s of
           Some idx \<Rightarrow> pathComponent0\<lparr>isIndex := True, index := idx\<rparr>
         | None \<Rightarrow> pathComponent0\<lparr>key := s\<rparr>))"

text \<open>
  \<open>flushKey\<close> is \<^verbatim>\<open>if current.Len() > 0 { parts = append(parts, pathComponent{key: ...}) }\<close>,
  \<open>flushComponent\<close> the same with \<^verbatim>\<open>parseComponent\<close>, and \<open>updateLast\<close> the assignment to
  a field of \<^verbatim>\<open>parts[len(parts)-1]\<close>, which the source makes only inside a query, where
  \<open>parts\<close> ends with the component of that query.
\<close>

definition flushKey :: "pathComponent list \<Rightarrow> string \<Rightarrow> pathComponent list" where
  "flushKey parts current =
     (if current \<noteq> [] then parts @ [pathComponent0\<lparr>key := current\<rparr>] else parts)"

definition flushComponent :: "pathComponent list \<Rightarrow> string \<Rightarrow> pathComponent list" where
  "flushComponent parts current =
     (if current \<noteq> [] then parts @ [parseComponent current] else parts)"

definition updateLast :: "(pathComponent \<Rightarrow> pathComponent) \<Rightarrow> pathComponent list \<Rightarrow> pathComponent list" where
  "updateLast f parts = (if parts = [] then parts else butlast parts @ [f (last parts)])"

text \<open>
  \<^verbatim>\<open>parsePath\<close>: the loop over the bytes of the path, with the state \<open>(parts, current,
  inQuery, queryDepth, escaped)\<close>. Where the source looks at \<^verbatim>\<open>path[i+1]\<close> and skips it with
  \<^verbatim>\<open>i++\<close>, the model matches on the rest of the path.
\<close>

fun parsePath_loop ::
  "string \<Rightarrow> pathComponent list \<Rightarrow> string \<Rightarrow> bool \<Rightarrow> int \<Rightarrow> bool \<Rightarrow> pathComponent list"
where
  "parsePath_loop [] parts current inQuery queryDepth escaped = flushComponent parts current"
| "parsePath_loop (ch # rest) parts current inQuery queryDepth escaped =
     (if escaped then parsePath_loop rest parts (current @ [ch]) inQuery queryDepth False
      else if ch = CHR 0x5C then parsePath_loop rest parts current inQuery queryDepth True
      else if ch = CHR ''#'' \<and> \<not> inQuery then
        (case rest of
           [] \<Rightarrow>
             parsePath_loop rest (flushKey parts current @ [pathComponent0\<lparr>isCount := True\<rparr>])
               [] inQuery queryDepth False
         | c # rest' \<Rightarrow>
             if c = CHR ''('' then
               parsePath_loop rest' (flushKey parts current @ [pathComponent0\<lparr>isQuery := True\<rparr>])
                 [] True 1 False
             else
               parsePath_loop rest (flushKey parts current @ [pathComponent0\<lparr>isCount := True\<rparr>])
                 [] inQuery queryDepth False)
      else if inQuery then
        (if ch = CHR ''('' then
           parsePath_loop rest parts (current @ [ch]) inQuery (queryDepth + 1) False
         else if ch = CHR '')'' then
           (if queryDepth - 1 = 0 then
              (case rest of
                 [] \<Rightarrow>
                   parsePath_loop rest (updateLast (\<lambda>p. p\<lparr>query := current\<rparr>) parts)
                     [] False (queryDepth - 1) False
               | c # rest' \<Rightarrow>
                   if c = CHR ''#'' then
                     parsePath_loop rest'
                       (updateLast (\<lambda>p. p\<lparr>multi := True\<rparr>)
                          (updateLast (\<lambda>p. p\<lparr>query := current\<rparr>) parts))
                       [] False (queryDepth - 1) False
                   else
                     parsePath_loop rest (updateLast (\<lambda>p. p\<lparr>query := current\<rparr>) parts)
                       [] False (queryDepth - 1) False)
            else parsePath_loop rest parts (current @ [ch]) inQuery (queryDepth - 1) False)
         else parsePath_loop rest parts (current @ [ch]) inQuery queryDepth False)
      else if ch = CHR ''.'' then
        parsePath_loop rest (flushComponent parts current) [] inQuery queryDepth False
      else if ch = CHR ''|'' then
        flushComponent parts current @ [pathComponent0\<lparr>pipe := rest, hasPipe := True\<rparr>]
      else parsePath_loop rest parts (current @ [ch]) inQuery queryDepth False)"

definition parsePath :: "string \<Rightarrow> pathComponent list" where
  "parsePath path = parsePath_loop path [] [] False 0 False"

section \<open>Query evaluator\<close>

text \<open>
  \<^verbatim>\<open>fmt.Sprint\<close> of a tree: \<open><nil>\<close> for nil, the words for the booleans, the decimal
  numeral of an int, a string as it is; the host formats the other values.
\<close>

definition fmt_Sprint :: "'f host \<Rightarrow> 'f yval \<Rightarrow> string" where
  "fmt_Sprint h v =
     (case v of
        YNull \<Rightarrow> ''<nil>''
      | YBool b \<Rightarrow> (if b then ''true'' else ''false'')
      | YInt i \<Rightarrow> strconv_Itoa i
      | YStr s \<Rightarrow> s
      | _ \<Rightarrow> fmt_Sprint_other h v)"

text \<open>Indexing a Go map: nil when the key is missing.\<close>

definition mapIndex :: "(string \<times> 'f yval) list \<Rightarrow> string \<Rightarrow> 'f yval" where
  "mapIndex m k = (case map_of m k of None \<Rightarrow> YNull | Some v \<Rightarrow> v)"

fun getValueByKey_loop :: "'f yval \<Rightarrow> string list \<Rightarrow> 'f yval" where
  "getValueByKey_loop current [] = current"
| "getValueByKey_loop current (part # parts) =
     (case current of
        YMap m \<Rightarrow> getValueByKey_loop (mapIndex m part) parts
      | _ \<Rightarrow> YNull)"

definition getValueByKey :: "'f yval \<Rightarrow> string \<Rightarrow> 'f yval" where
  "getValueByKey data k =
     (case data of
        YMap m \<Rightarrow>
          if strings_Contains k ''.'' then
            getValueByKey_loop data (strings_Split k (CHR ''.''))
          else mapIndex m k
      | _ \<Rightarrow> YNull)"

definition compareNumeric :: "'f host \<Rightarrow> 'f yval \<Rightarrow> string \<Rightarrow> string \<Rightarrow> bool" where
  "compareNumeric h itemValue op value =
     (case (case itemValue of
              YFloat v \<Rightarrow> Some v
            | YInt v \<Rightarrow> Some (float64 h v)
            | YStr v \<Rightarrow> Some (fst (strconv_ParseFloat h v))
            | _ \<Rightarrow> None) of
        None \<Rightarrow> False
      | Some itemNum \<Rightarrow>
          (case strconv_ParseFloat h value of
             (valueNum, False) \<Rightarrow> False
           | (valueNum, True) \<Rightarrow>
               if op = ''<'' then float_lt h itemNum valueNum
               else if op = ''<='' then float_le h itemNum valueNum
               else if op = ''>'' then float_lt h valueNum itemNum
               else if op = ''>='' then float_le h valueNum itemNum
               else False))"

definition compareValues :: "'f host \<Rightarrow> 'f yval \<Rightarrow> string \<Rightarrow> string \<Rightarrow> bool" where
  "compareValues h itemValue op value =
     (if op = ''=='' then fmt_Sprint h itemValue = value
      else if op = ''!='' then fmt_Sprint h itemValue \<noteq> value
      else if op = ''%'' then matchPattern (fmt_Sprint h itemValue) value
      else if op = ''!%'' then \<not> matchPattern (fmt_Sprint h itemValue) value
      else if op = ''<'' \<or> op = ''<='' \<or> op = ''>'' \<or> op = ''>='' then
        compareNumeric h itemValue op value
      else False)"

text \<open>
  The loop of \<^verbatim>\<open>evaluateQuery\<close> over the operators, in the order of the source: the first
  operator that occurs in the query \<open>q\<close> splits it into \<open>(k, op, value)\<close>, the \<^verbatim>\<open>key\<close>,
  \<^verbatim>\<open>op\<close> and \<^verbatim>\<open>value\<close> of the source.
\<close>

definition queryOperators :: "string list" where
  "queryOperators = [''=='', ''!='', ''<='', ''>='', ''<'', ''>'', ''!%'', ''%'']"

fun findOperator :: "string \<Rightarrow> string list \<Rightarrow> (string \<times> string \<times> string) option" where
  "findOperator q [] = None"
| "findOperator q (operator # operators) =
     (case strings_Index q operator of
        Some idx \<Rightarrow>
          Some (strings_TrimSpace (take idx q), operator,
                strings_TrimSpace (drop (idx + length operator) q))
      | None \<Rightarrow> findOperator q operators)"

definition evaluateQuery :: "'f host \<Rightarrow> 'f yval \<Rightarrow> string \<Rightarrow> bool" where
  "evaluateQuery h item q =
     (case findOperator q queryOperators of
        None \<Rightarrow> False
      | Some (k, op, value) \<Rightarrow>
          compareValues h (if k = [] then item else getValueByKey item k) op
            (strings_Trim value [CHR 0x22, CHR 0x27]))"

definition handleQuery :: "'f host \<Rightarrow> 'f yval \<Rightarrow> pathComponent \<Rightarrow> pathComponent list \<Rightarrow> 'f yval" where
  "handleQuery h data part remainingParts =
     (case data of
        YSeq arr \<Rightarrow>
          (let matches = filter (\<lambda>item. evaluateQuery h item (query part)) arr in
           if multi part then YSeq matches
           else if length matches > 0 then hd matches
           else YNull)
      | _ \<Rightarrow> YNull)"


section \<open>Modifiers\<close>

text \<open>
  A modifier maps the YAML text and an argument to a text; the registry is the
  process-wide map \<^verbatim>\<open>modifiers\<close>, passed to the engine as the argument \<open>reg\<close>.
\<close>

type_synonym modifier = "string \<Rightarrow> string \<Rightarrow> string"

type_synonym registry = "string \<rightharpoonup> modifier"

definition modReverse :: "'f host \<Rightarrow> modifier" where
  "modReverse h yamlStr arg =
     (case yaml_Unmarshal h yamlStr of
        None \<Rightarrow> yamlStr
      | Some data \<Rightarrow>
          (case data of
             YSeq v \<Rightarrow> yaml_Marshal h (YSeq (rev v))
           | YMap v \<Rightarrow> yaml_Marshal h (YMap v)
           | _ \<Rightarrow> yamlStr))"

definition modUgly :: "'f host \<Rightarrow> modifier" where
  "modUgly h yamlStr arg =
     (case yaml_Unmarshal h yamlStr of
        None \<Rightarrow> yamlStr
      | Some data \<Rightarrow> strings_TrimSpace (yaml_Marshal h data))"

definition modPretty :: "'f host \<Rightarrow> modifier" where
  "modPretty h yamlStr arg =
     (case yaml_Unmarshal h yamlStr of
        None \<Rightarrow> yamlStr
      | Some data \<Rightarrow> yaml_Marshal h data)"

definition modThis :: modifier where
  "modThis yamlStr arg = yamlStr"

definition modValid :: "'f host \<Rightarrow> modifier" where
  "modValid h yamlStr arg = (if Valid h yamlStr then ''true'' else ''false'')"

fun flattenArray :: "'f yval list \<Rightarrow> 'f yval list" where
  "flattenArray [] = []"
| "flattenArray (YSeq subArr # arr) = flattenArray subArr @ flattenArray arr"
| "flattenArray (item # arr) = item # flattenArray arr"

definition modFlatten :: "'f host \<Rightarrow> modifier" where
  "modFlatten h yamlStr arg =
     (case yaml_Unmarshal h yamlStr of
        None \<Rightarrow> yamlStr
      | Some data \<Rightarrow>
          (case data of
             YSeq arr \<Rightarrow> yaml_Marshal h (YSeq (flattenArray arr))
           | _ \<Rightarrow> yamlStr))"

text \<open>Assignment to a Go map: \<^verbatim>\<open>joined[k] = v\<close>.\<close>

fun mapAssign :: "(string \<times> 'f yval) list \<Rightarrow> string \<Rightarrow> 'f yval \<Rightarrow> (string \<times> 'f yval) list" where
  "mapAssign [] k v = [(k, v)]"
| "mapAssign ((k', v') # m) k v = (if k' = k then (k, v) # m else (k', v') # mapAssign m k v)"

definition modJoin :: "'f host \<Rightarrow> modifier" where
  "modJoin h yamlStr arg =
     (case yaml_Unmarshal h yamlStr of
        None \<Rightarrow> yamlStr
      | Some data \<Rightarrow>
          (case data of
             YSeq arr \<Rightarrow>
               yaml_Marshal h
                 (YMap (foldl (\<lambda>joined item.
                                 case item of
                                   YMap m \<Rightarrow> foldl (\<lambda>j (k, v). mapAssign j k v) joined m
                                 | _ \<Rightarrow> joined) [] arr))
           | _ \<Rightarrow> yamlStr))"

definition modKeys :: "'f host \<Rightarrow> modifier" where
  "modKeys h yamlStr arg =
     (case yaml_Unmarshal h yamlStr of
        None \<Rightarrow> yamlStr
      | Some data \<Rightarrow>
          (case data of
             YMap m \<Rightarrow> yaml_Marshal h (YSeq (map (\<lambda>(k, v). YStr k) m))
           | _ \<Rightarrow> yamlStr))"

definition modValues :: "'f host \<Rightarrow> modifier" where
  "modValues h yamlStr arg =
     (case yaml_Unmarshal h yamlStr of
        None \<Rightarrow> yamlStr
      | Some data \<Rightarrow>
          (case data of
             YMap m \<Rightarrow> yaml_Marshal h (YSeq (map (\<lambda>(k, v). v) m))
           | _ \<Rightarrow> yamlStr))"

text \<open>The registry as the package initialises it, and \<^verbatim>\<open>AddModifier\<close>.\<close>

definition modifiers :: "'f host \<Rightarrow> registry" where
  "modifiers h =
     map_of
       [(''reverse'', modReverse h), (''ugly'', modUgly h), (''pretty'', modPretty h),
        (''this'', modThis), (''valid'', modValid h), (''flatten'', modFlatten h),
        (''join'', modJoin h), (''keys'', modKeys h), (''values'', modValues h)]"

definition AddModifier :: "registry \<Rightarrow> string \<Rightarrow> modifier \<Rightarrow> registry" where
  "AddModifier reg name fn = reg(name \<mapsto> fn)"

text \<open>
  \<^verbatim>\<open>applyModifier\<close>. \<open>modNameOf\<close> and \<open>modArgOf\<close> are the name and the argument that its
  first lines read off the path (\<^verbatim>\<open>path[1:idx]\<close> and \<^verbatim>\<open>path[idx+1:]\<close> at the first colon,
  else \<^verbatim>\<open>path[1:]\<close> and the empty string); the path starts with \<open>@\<close> there, so the
  slices are in range. \<open>applyModifier_last\<close> is the end of the function, from the second
  lookup in the registry on.
\<close>

definition modNameOf :: "string \<Rightarrow> string" where
  "modNameOf path =
     (case strings_Index path '':'' of
        Some idx \<Rightarrow> take (idx - 1) (drop 1 path)
      | None \<Rightarrow> drop 1 path)"

definition modArgOf :: "string \<Rightarrow> string" where
  "modArgOf path =
     (case strings_Index path '':'' of
        Some idx \<Rightarrow> drop (idx + 1) path
      | None \<Rightarrow> [])"

definition applyModifier_last ::
  "'f host \<Rightarrow> registry \<Rightarrow> 'f yval \<Rightarrow> string \<Rightarrow> string \<Rightarrow> string \<Rightarrow> 'f Result" where
  "applyModifier_last h reg data modName modArg yamlStr =
     (case reg modName of
        Some fn \<Rightarrow>
          valueToResult h
            (case yaml_Unmarshal h (fn yamlStr modArg) of None \<Rightarrow> YNull | Some newData \<Rightarrow> newData)
      | None \<Rightarrow> valueToResult h data)"

function applyModifier :: "'f host \<Rightarrow> registry \<Rightarrow> 'f yval \<Rightarrow> string \<Rightarrow> string \<Rightarrow> 'f Result" where
  "applyModifier h reg data path yamlStr =
     (if \<not> strings_HasPrefix path ''@'' then valueToResult h data
      else
        (case strings_Index (modNameOf path) ''|'' of
           Some idx \<Rightarrow>
             (case reg (take idx (modNameOf path)) of
                Some fn \<Rightarrow>
                  applyModifier h reg data (drop 1 (drop idx (modNameOf path)))
                    (fn yamlStr (modArgOf path))
              | None \<Rightarrow>
                  applyModifier_last h reg data (take idx (modNameOf path)) (modArgOf path) yamlStr)
         | None \<Rightarrow> applyModifier_last h reg data (modNameOf path) (modArgOf path) yamlStr))"
  by pat_completeness auto
termination
  by (relation "measure (\<lambda>(h, reg, data, path, yamlStr). length path)")
     (auto simp: modNameOf_def strings_HasPrefix_def split: option.splits)

declare applyModifier.simps [simp del]

section \<open>Traversal engine\<close>

text \<open>
  \<^verbatim>\<open>traversePath\<close>: the loop over the components is the recursion on \<open>parts\<close>; \<open>rest\<close> is
  \<^verbatim>\<open>parts[i+1:]\<close>, so \<^verbatim>\<open>i+1 < len(parts)\<close> is \<open>rest \<noteq> []\<close>. A count that is followed by
  more components and meets neither a sequence nor a mapping leaves its \<^verbatim>\<open>switch\<close>
  without a return and reaches the \<^verbatim>\<open>switch\<close> on the current value at the end of the loop
  body, as in the source.
\<close>

fun traversePath ::
  "'f host \<Rightarrow> registry \<Rightarrow> 'f yval \<Rightarrow> pathComponent list \<Rightarrow> string \<Rightarrow> 'f Result"
where
  "traversePath h reg current [] origYAML = valueToResult h current"
| "traversePath h reg current (part # rest) origYAML =
     (if hasPipe part then
        applyModifier h reg current (pipe part) (Raw (valueToResult h current))
      else if isCount part \<and> rest \<noteq> [] \<and> (case current of YSeq v \<Rightarrow> True | _ \<Rightarrow> False) then
        (case current of
           YSeq v \<Rightarrow>
             valueToResult h
               (YSeq (map (Value h)
                        (filter Exists (map (\<lambda>item. traversePath h reg item rest origYAML) v))))
         | _ \<Rightarrow> Result0 h)
      else if isCount part \<and> rest \<noteq> [] \<and> (case current of YMap v \<Rightarrow> True | _ \<Rightarrow> False) then
        (Result0 h)\<lparr>Type := Null\<rparr>
      else if isCount part \<and> rest = [] then
        (case current of
           YSeq v \<Rightarrow>
             (Result0 h)\<lparr>Type := Number, Num := float64 h (int (length v)),
                         Raw := strconv_Itoa (int (length v))\<rparr>
         | YMap v \<Rightarrow>
             (Result0 h)\<lparr>Type := Number, Num := float64 h (int (length v)),
                         Raw := strconv_Itoa (int (length v))\<rparr>
         | _ \<Rightarrow> (Result0 h)\<lparr>Type := Number, Num := float64 h 0, Raw := ''0''\<rparr>)
      else if isQuery part then
        (if \<not> multi part \<and> rest \<noteq> [] then
           traversePath h reg (handleQuery h current part rest) rest origYAML
         else if multi part \<and> rest \<noteq> [] then
           (case handleQuery h current part rest of
              YSeq matches \<Rightarrow>
                valueToResult h
                  (YSeq (map (Value h)
                           (filter Exists
                              (map (\<lambda>match. traversePath h reg match rest origYAML) matches))))
            | other \<Rightarrow> valueToResult h other)
         else valueToResult h (handleQuery h current part rest))
      else
        (case current of
           YMap v \<Rightarrow>
             if isWild part then
               (let matches = map snd (filter (\<lambda>(k, val). matchPattern k (key part)) v) in
                if length matches = 1 then traversePath h reg (hd matches) rest origYAML
                else traversePath h reg (YSeq matches) rest origYAML)
             else
               (case map_of v (key part) of
                  None \<Rightarrow> (Result0 h)\<lparr>Type := Null\<rparr>
                | Some val \<Rightarrow> traversePath h reg val rest origYAML)
         | YSeq v \<Rightarrow>
             if isIndex part then
               (if index part < 0 \<or> index part \<ge> int (length v) then (Result0 h)\<lparr>Type := Null\<rparr>
                else traversePath h reg (v ! nat (index part)) rest origYAML)
             else if key part \<noteq> [] then
               (let results =
                      concat (map (\<lambda>item. case item of
                                             YMap m \<Rightarrow>
                                               (case map_of m (key part) of
                                                  Some val \<Rightarrow> [val]
                                                | None \<Rightarrow> [])
                                           | _ \<Rightarrow> []) v)
                in if length results = 0 then (Result0 h)\<lparr>Type := Null\<rparr>
                   else traversePath h reg (YSeq results) rest origYAML)
             else traversePath h reg current rest origYAML
         | _ \<Rightarrow> (Result0 h)\<lparr>Type := Null\<rparr>))"

declare traversePath.simps(2) [simp del]

section \<open>Public entry points\<close>

definition getFromPath :: "'f host \<Rightarrow> registry \<Rightarrow> 'f yval \<Rightarrow> string \<Rightarrow> string \<Rightarrow> 'f Result" where
  "getFromPath h reg data path origYAML =
     (if path = [] \<or> path = ''@this'' then valueToResult h data
      else if hd path = CHR ''@'' then applyModifier h reg data path origYAML
      else if length (parsePath path) = 0 then valueToResult h data
      else traversePath h reg data (parsePath path) origYAML)"

text \<open>
  \<^verbatim>\<open>getMany\<close>, the lines mode behind the prefix \<open>..\<close>: the lines that are not blank and
  that parse are collected into a sequence.
\<close>

definition getMany :: "'f host \<Rightarrow> registry \<Rightarrow> string \<Rightarrow> string \<Rightarrow> 'f Result" where
  "getMany h reg yaml path =
     getFromPath h reg
       (YSeq (concat (map (\<lambda>line.
                             if strings_TrimSpace line = [] then []
                             else (case yaml_Unmarshal h (strings_TrimSpace line) of
                                     None \<Rightarrow> []
                                   | Some item \<Rightarrow> [item]))
                        (strings_Split yaml newline))))
       (drop 2 path) yaml"

text \<open>
  \<^verbatim>\<open>Get\<close>. The result is \<open>Inl\<close> when the call panics, \<open>Inr\<close> with the \<^verbatim>\<open>Result\<close> when it
  returns.
\<close>

definition Get :: "'f host \<Rightarrow> registry \<Rightarrow> string \<Rightarrow> string \<Rightarrow> go_panic + 'f Result" where
  "Get h reg yaml path =
     (if length path > 1 \<and> path ! 0 = CHR ''.'' \<and> path ! 1 = CHR ''.'' then
        Inr (getMany h reg yaml path)
      else if length path = 0 then Inr ((Result0 h)\<lparr>Type := YAML, Raw := yaml, Index := 0\<rparr>)
      else
        (case fastGet h yaml (if path ! 0 = CHR ''.'' then drop 1 path else path) of
           Inl p \<Rightarrow> Inl p
         | Inr (result, ok) \<Rightarrow>
             if ok then Inr result
             else
               (case yaml_Unmarshal h yaml of
                  None \<Rightarrow> Inr (Result0 h)
                | Some data \<Rightarrow>
                    Inr (getFromPath h reg data
                           (if path ! 0 = CHR ''.'' then drop 1 path else path) yaml))))"


section \<open>Test documents and a test host\<close>

text \<open>
  The document of README.md, and the tree that the YAML library parses it to.
\<close>

definition readmeYAML :: string where
  "readmeYAML =
     ''name:\<newline>'' @
     ''  first: Tom\<newline>'' @
     ''  last: Anderson\<newline>'' @
     ''age: 37\<newline>'' @
     ''children:\<newline>'' @
     ''  - Sara\<newline>'' @
     ''  - Alex\<newline>'' @
     ''  - Jack\<newline>'' @
     ''fav.movie: Deer Hunter\<newline>'' @
     ''friends:\<newline>'' @
     ''  - first: Dale\<newline>'' @
     ''    last: Murphy\<newline>'' @
     ''    age: 44\<newline>'' @
     ''    nets:\<newline>'' @
     ''      - ig\<newline>'' @
     ''      - fb\<newline>'' @
     ''      - tw\<newline>'' @
     ''  - first: Roger\<newline>'' @
     ''    last: Craig\<newline>'' @
     ''    age: 68\<newline>'' @
     ''    nets:\<newline>'' @
     ''      - fb\<newline>'' @
     ''      - tw\<newline>'' @
     ''  - first: Jane\<newline>'' @
     ''    last: Murphy\<newline>'' @
     ''    age: 47\<newline>'' @
     ''    nets:\<newline>'' @
     ''      - ig\<newline>'' @
     ''      - tw\<newline>''"

definition readmeChildren :: "'f yval" where
  "readmeChildren = YSeq [YStr ''Sara'', YStr ''Alex'', YStr ''Jack'']"

definition readmeFriends :: "'f yval" where
  "readmeFriends =
     YSeq
       [YMap [(''first'', YStr ''Dale''), (''last'', YStr ''Murphy''), (''age'', YInt 44),
              (''nets'', YSeq [YStr ''ig'', YStr ''fb'', YStr ''tw''])],
        YMap [(''first'', YStr ''Roger''), (''last'', YStr ''Craig''), (''age'', YInt 68),
              (''nets'', YSeq [YStr ''fb'', YStr ''tw''])],
        YMap [(''first'', YStr ''Jane''), (''last'', YStr ''Murphy''), (''age'', YInt 47),
              (''nets'', YSeq [YStr ''ig'', YStr ''tw''])]]"

definition readmeData :: "'f yval" where
  "readmeData =
     YMap
       [(''name'', YMap [(''first'', YStr ''Tom''), (''last'', YStr ''Anderson'')]),
        (''age'', YInt 37),
        (''children'', readmeChildren),
        (''fav.movie'', YStr ''Deer Hunter''),
        (''friends'', readmeFriends)]"

text \<open>
  A test host, for evaluating the engine on the documents of this section. Its float
  type is \<^typ>\<open>int\<close> and it reads decimal integer literals only; it parses and prints the
  listed documents as the YAML library does (block sequences, \<open>[]\<close> for the empty
  sequence) and rejects every other text.
\<close>

definition testUnmarshal :: "string \<Rightarrow> int yval option" where
  "testUnmarshal s =
     (if s = readmeYAML then Some readmeData
      else if s = ''- Sara\<newline>- Alex\<newline>- Jack\<newline>'' then Some readmeChildren
      else if s = ''- Jack\<newline>- Alex\<newline>- Sara\<newline>'' then
        Some (YSeq [YStr ''Jack'', YStr ''Alex'', YStr ''Sara''])
      else if s = ''[]\<newline>'' then Some (YSeq [])
      else if s = ''arr:\<newline>  - x\<newline>  - y\<newline>  - z\<newline>'' then
        Some (YMap [(''arr'', YSeq [YStr ''x'', YStr ''y'', YStr ''z''])])
      else if s = ''- x\<newline>- z\<newline>'' then Some (YSeq [YStr ''x'', YStr ''z''])
      else if s = ''a:\<newline>  - b: [p, q]\<newline>  - b: [p, r]\<newline>'' then
        Some (YMap [(''a'', YSeq [YMap [(''b'', YSeq [YStr ''p'', YStr ''q''])],
                                 YMap [(''b'', YSeq [YStr ''p'', YStr ''r''])]])])
      else if s = ''- p\<newline>- q\<newline>'' then Some (YSeq [YStr ''p'', YStr ''q''])
      else if s = ''- p\<newline>- r\<newline>'' then Some (YSeq [YStr ''p'', YStr ''r''])
      else if s = ''- p\<newline>- p\<newline>'' then Some (YSeq [YStr ''p'', YStr ''p''])
      else if s = ''- - p\<newline>  - q\<newline>- - p\<newline>  - r\<newline>'' then
        Some (YSeq [YSeq [YStr ''p'', YStr ''q''], YSeq [YStr ''p'', YStr ''r'']])
      else if s = ''a: 1\<newline>'' then Some (YMap [(''a'', YInt 1)])
      else None)"

definition testMarshal :: "int yval \<Rightarrow> string" where
  "testMarshal v =
     (if v = readmeChildren then ''- Sara\<newline>- Alex\<newline>- Jack\<newline>''
      else if v = YSeq [YStr ''Jack'', YStr ''Alex'', YStr ''Sara''] then
        ''- Jack\<newline>- Alex\<newline>- Sara\<newline>''
      else if v = YSeq [] then ''[]\<newline>''
      else if v = YSeq [YStr ''x'', YStr ''z''] then ''- x\<newline>- z\<newline>''
      else if v = YSeq [YStr ''p'', YStr ''q''] then ''- p\<newline>- q\<newline>''
      else if v = YSeq [YStr ''p'', YStr ''r''] then ''- p\<newline>- r\<newline>''
      else if v = YSeq [YStr ''p'', YStr ''p''] then ''- p\<newline>- p\<newline>''
      else if v = YSeq [YSeq [YStr ''p'', YStr ''q''], YSeq [YStr ''p'', YStr ''r'']] then
        ''- - p\<newline>  - q\<newline>- - p\<newline>  - r\<newline>''
      else [])"

definition testHost :: "int host" where
  "testHost =
     \<lparr>yaml_Unmarshal = testUnmarshal,
      yaml_Marshal = testMarshal,
      strconv_ParseFloat = (\<lambda>s. case strconv_Atoi s of Some n \<Rightarrow> (n, True) | None \<Rightarrow> (0, False)),
      strconv_FormatFloat = strconv_Itoa,
      float64 = (\<lambda>i. i),
      float_lt = (\<lambda>a b. a < b),
      float_le = (\<lambda>a b. a \<le> b),
      fmt_Sprint_other = (\<lambda>v. [])\<rparr>"


section \<open>Specification-level notions\<close>

text \<open>
  The glob relation in the words of the specification: a star matches any run of bytes,
  the empty run included, a question mark matches exactly one byte, and every other
  pattern byte matches an identical byte only.
\<close>

inductive glob :: "string \<Rightarrow> string \<Rightarrow> bool" where
  glob_end: "glob [] []"
| glob_star: "glob rest pattern \<Longrightarrow> glob (run @ rest) (CHR ''*'' # pattern)"
| glob_one: "glob rest pattern \<Longrightarrow> glob (b # rest) (CHR ''?'' # pattern)"
| glob_byte: "p \<noteq> CHR ''*'' \<Longrightarrow> p \<noteq> CHR ''?'' \<Longrightarrow> glob rest pattern
              \<Longrightarrow> glob (p # rest) (p # pattern)"

code_pred glob .

text \<open>
  A component that is a key, a wildcard key or an index: what \<^verbatim>\<open>parseComponent\<close> makes.
  The components of a query \<open>#(q)\<close> and \<open>#(q)#\<close> as \<^verbatim>\<open>parsePath\<close> builds them.
\<close>

definition plainComponent :: "pathComponent \<Rightarrow> bool" where
  "plainComponent p = (\<not> hasPipe p \<and> \<not> isCount p \<and> \<not> isQuery p)"



section \<open>The pattern matcher is the glob relation\<close>

lemma deepMatch_star:
  "deepMatch str (CHR ''*'' # pattern) = (\<exists>i\<le>length str. deepMatch (drop i str) pattern)"
proof (cases "pattern = []")
  case True
  have "deepMatch (drop (length str) str) []" by simp
  then show ?thesis using True by auto
next
  case False
  then have "deepMatch str (CHR ''*'' # pattern)
      = (\<exists>i\<in>set [0..<Suc (length str)]. deepMatch (drop i str) pattern)"
    by (simp add: list_ex_iff del: upt_Suc)
  also have "\<dots> = (\<exists>i\<le>length str. deepMatch (drop i str) pattern)"
    by (auto simp: less_Suc_eq_le simp del: upt_Suc)
  finally show ?thesis .
qed

lemma deepMatch_imp_glob: "deepMatch str pattern \<Longrightarrow> glob str pattern"
proof (induction pattern arbitrary: str)
  case Nil
  then show ?case by (simp add: glob_end)
next
  case (Cons p pattern)
  show ?case
  proof (cases "p = CHR ''*''")
    case True
    with Cons.prems have "\<exists>i\<le>length str. deepMatch (drop i str) pattern"
      using deepMatch_star [of str pattern] by simp
    then obtain i where "deepMatch (drop i str) pattern" by blast
    then have "glob (take i str @ drop i str) (CHR ''*'' # pattern)"
      by (intro glob_star Cons.IH)
    then show ?thesis using True by simp
  next
    case star: False
    show ?thesis
    proof (cases "p = CHR ''?''")
      case True
      with Cons.prems star obtain b rest where "str = b # rest" "deepMatch rest pattern"
        by (auto split: list.splits)
      then show ?thesis using True by (auto intro: glob_one Cons.IH)
    next
      case False
      with Cons.prems star obtain rest where "str = p # rest" "deepMatch rest pattern"
        by (auto split: list.splits if_splits)
      then show ?thesis using False star by (auto intro: glob_byte Cons.IH)
    qed
  qed
qed

lemma glob_imp_deepMatch: "glob str pattern \<Longrightarrow> deepMatch str pattern"
proof (induction rule: glob.induct)
  case glob_end
  then show ?case by simp
next
  case (glob_star rest pattern run)
  have "deepMatch (drop (length run) (run @ rest)) pattern"
    using glob_star.IH by simp
  then show ?case unfolding deepMatch_star by (metis le_add1 length_append)
next
  case (glob_one rest pattern b)
  then show ?case by simp
next
  case (glob_byte p rest pattern)
  then show ?case by simp
qed

text \<open>
  C8. For every string and pattern \<^verbatim>\<open>deepMatch\<close>, and with it the matcher \<^verbatim>\<open>matchPattern\<close>
  that the engine calls, decides the glob relation of the specification (a star matches
  any run of bytes, the empty one included; a question mark matches exactly one byte;
  any other byte matches itself only), and the empty string matches the pattern \<open>*\<close>.
\<close>

theorem deepMatch_is_glob:
  "deepMatch str pattern = glob str pattern \<and>
   matchPattern str pattern = glob str pattern \<and>
   matchPattern [] ''*''"
  using deepMatch_imp_glob glob_imp_deepMatch by (auto simp: matchPattern_def wildcard_def)

theorem deepMatch_is_glob_witness:
  "glob ''Dale'' ''D*'' \<and> glob ''Alex'' ''?l*x'' \<and> \<not> glob ''Dale'' ''D?'' \<and> glob [] ''*''"
  using deepMatch_is_glob [of "''Dale''" "''D*''"] deepMatch_is_glob [of "''Alex''" "''?l*x''"]
    deepMatch_is_glob [of "''Dale''" "''D?''"] deepMatch_is_glob [of "[]" "''*''"]
  by simp

section \<open>The entry point\<close>

text \<open>
  C9. For every document \<open>D\<close>, \<^verbatim>\<open>Get\<close> with the empty path returns (it does not panic) a
  result of kind \<^verbatim>\<open>YAML\<close> (the raw kind) whose raw text is \<open>D\<close> itself and whose index is 0.
\<close>

theorem Get_empty_path:
  "Get h reg D [] =
     Inr \<lparr>Type = YAML, Raw = D, Str = [], Num = float64 h 0, Index = 0, Indexes = []\<rparr>"
  by (simp add: Get_def Result0_def)

text \<open>
  C1. \<^verbatim>\<open>Get\<close> does not return on every input: on the document \<open>a: "\<close> (a key whose value
  is a lone double quote) and the path \<open>a\<close>, the fast path reaches \<^verbatim>\<open>extractValue\<close> with
  the one-byte text \<open>"\<close>, which both starts and ends with a quote, and the slice
  \<^verbatim>\<open>value[1 : len(value)-1]\<close> panics with bounds \<open>[1:0]\<close>.
\<close>

theorem Get_panics_on_lone_quote:
  "Get h reg ''a: \"'' ''a'' = Inl (SliceBoundsOutOfRange 1 0)"
proof -
  have sp: "splitPath ''a'' = [''a'']" by code_simp
  have cf: "hasComplexFeatures ''a'' = False" by code_simp
  have at: "strconv_Atoi ''a'' = None" by code_simp
  have fk: "findKeyLine (firstIndent (strings_Split ''a: \"'' newline)) (''a'' @ '':'')
             (strings_Split ''a: \"'' newline) = Some (''a: \"'', 0, [])" by code_simp
  have vp: "strings_TrimSpace (drop (length (''a'' @ '':'')) ''a: \"'') = [CHR 0x22]" by code_simp
  have tv: "strings_TrimSpace [CHR 0x22] = [CHR 0x22]" by code_simp
  have c1: "strings_Contains [CHR 0x22] '':'' = False" by code_simp
  have p1: "strings_HasPrefix [CHR 0x22] ''{'' = False" "strings_HasPrefix [CHR 0x22] ''['' = False"
    "strings_HasPrefix [CHR 0x22] [CHR 0x22] = True" "strings_HasSuffix [CHR 0x22] [CHR 0x22] = True"
    by code_simp+
  have ev: "extractValue h [CHR 0x22] = Inl (SliceBoundsOutOfRange 1 0)"
    by (simp add: extractValue_def tv p1 slice_def Let_def)
  have fin: "fastParseKey_final h [CHR 0x22] 0 [] = Inl (SliceBoundsOutOfRange 1 0)"
    by (simp add: fastParseKey_final_def tv p1 c1 ev)
  have key: "fastParseKey h ''a: \"'' [''a''] 0 ''a'' = Inl (SliceBoundsOutOfRange 1 0)"
    by (subst fastParseKey.simps) (simp only: fk vp option.case prod.case, simp add: fin)
  have pp: "fastParsePath h ''a: \"'' [''a''] 0 = Inl (SliceBoundsOutOfRange 1 0)"
    by (subst fastParsePath.simps) (simp add: at key)
  have fg: "fastGet h ''a: \"'' ''a'' = Inl (SliceBoundsOutOfRange 1 0)"
    by (simp add: fastGet_def sp cf pp)
  show ?thesis by (simp add: Get_def fg)
qed


lemma fastGet_complex:
  "hasComplexFeatures path \<Longrightarrow> path \<noteq> [] \<Longrightarrow> fastGet h yaml path = Inr (Result0 h, False)"
  by (simp add: fastGet_def)

text \<open>
  C2, as the code has it. When the YAML library rejects the document, and the path is
  not empty, does not start with two dots (lines mode) and is one on which the fast path
  declines (\<^verbatim>\<open>fastGet\<close> returns \<^verbatim>\<open>ok = false\<close>), \<^verbatim>\<open>Get\<close> returns the zero \<^verbatim>\<open>Result\<close>: kind
  \<^verbatim>\<open>Null\<close>, empty raw text, \<^verbatim>\<open>Exists()\<close> false.
\<close>

theorem Get_rejected_document:
  assumes "yaml_Unmarshal h D = None"
    and "path \<noteq> []"
    and "\<not> (length path > 1 \<and> path ! 0 = CHR ''.'' \<and> path ! 1 = CHR ''.'')"
    and "fastGet h D (if path ! 0 = CHR ''.'' then drop 1 path else path) = Inr (r, False)"
  shows "Get h reg D path = Inr (Result0 h) \<and> \<not> Exists (Result0 h)"
  using assms by (auto simp: Get_def Exists_def Result0_def)

theorem Get_rejected_document_witness:
  "yaml_Unmarshal testHost ''['' = None \<and> ''a'' \<noteq> [] \<and>
   \<not> (length ''a'' > 1 \<and> ''a'' ! 0 = CHR ''.'' \<and> ''a'' ! 1 = CHR ''.'') \<and>
   fastGet testHost ''['' (if ''a'' ! 0 = CHR ''.'' then drop 1 ''a'' else ''a'')
     = Inr (Result0 testHost, False) \<and>
   Get testHost (modifiers testHost) ''['' ''a'' = Inr (Result0 testHost) \<and>
   \<not> Exists (Result0 testHost)"
proof -
  have a: "yaml_Unmarshal testHost ''['' = None" by code_simp
  have b: "fastGet testHost ''['' (if ''a'' ! 0 = CHR ''.'' then drop 1 ''a'' else ''a'')
      = Inr (Result0 testHost, False)"
    by code_simp
  have c: "\<not> (length ''a'' > 1 \<and> ''a'' ! 0 = CHR ''.'' \<and> ''a'' ! 1 = CHR ''.'')" by simp
  show ?thesis
    using Get_rejected_document [OF a _ c b, of "modifiers testHost"] a b by simp
qed

text \<open>
  C2, as the claim states it, fails in three ways. With a host whose YAML library
  rejects the documents \<open>[\<close> and \<open>a: 1\<close>, \<open>b: [\<close>: the empty path returns the document
  itself; the path \<open>..\<close> returns the (empty) sequence of the lines that parse; and the
  path \<open>a\<close> is answered by the fast path, which never calls the library. All three
  results exist.
\<close>

theorem Get_rejected_document_counterexample:
  "yaml_Unmarshal testHost ''['' = None \<and>
   Get testHost (modifiers testHost) ''['' [] =
     Inr \<lparr>Type = YAML, Raw = ''['', Str = [], Num = 0, Index = 0, Indexes = []\<rparr> \<and>
   Exists \<lparr>Type = YAML, Raw = ''['', Str = [], Num = 0 :: int, Index = 0, Indexes = []\<rparr> \<and>
   Get testHost (modifiers testHost) ''['' ''..'' =
     Inr \<lparr>Type = YAML, Raw = ''[]\<newline>'', Str = [], Num = 0, Index = 0, Indexes = []\<rparr> \<and>
   Exists \<lparr>Type = YAML, Raw = ''[]\<newline>'', Str = [], Num = 0 :: int, Index = 0, Indexes = []\<rparr> \<and>
   yaml_Unmarshal testHost ''a: 1\<newline>b: ['' = None \<and>
   Get testHost (modifiers testHost) ''a: 1\<newline>b: ['' ''a'' =
     Inr \<lparr>Type = Number, Raw = ''1'', Str = [], Num = 1, Index = 0, Indexes = []\<rparr> \<and>
   Exists \<lparr>Type = Number, Raw = ''1'', Str = [], Num = 1 :: int, Index = 0, Indexes = []\<rparr>"
  by code_simp

section \<open>The fast path against the traversal engine\<close>

text \<open>
  The traversal engine counts as the specification says: a final \<open>#\<close> gives the number
  of elements of a sequence, the number of keys of a mapping, and 0 on any other value.
\<close>

lemma strconv_Itoa_0: "strconv_Itoa 0 = ''0''"
  by code_simp

lemma traversePath_count_last:
  assumes "isCount p" "\<not> hasPipe p"
  shows "traversePath h reg cur [p] orig =
           (Result0 h)\<lparr>Type := Number,
             Num := float64 h (case cur of YSeq v \<Rightarrow> int (length v)
                                | YMap v \<Rightarrow> int (length v) | _ \<Rightarrow> 0),
             Raw := strconv_Itoa (case cur of YSeq v \<Rightarrow> int (length v)
                                   | YMap v \<Rightarrow> int (length v) | _ \<Rightarrow> 0)\<rparr>"
  using assms by (cases cur) (simp_all add: traversePath.simps(2) strconv_Itoa_0)

text \<open>
  C6. On the document of README.md and the path \<open>name.#\<close>, where \<open>name\<close> is a mapping
  with the two keys \<open>first\<close> and \<open>last\<close>, \<^verbatim>\<open>Get\<close> returns the number 0: the fast path
  answers, and it counts the lines of the block that start with a dash. The traversal
  engine on the parsed document returns the number of keys, 2.
\<close>

theorem Get_count_of_mapping:
  "Get h reg readmeYAML ''name.#'' =
     Inr ((Result0 h)\<lparr>Type := Number, Num := float64 h 0, Raw := ''0''\<rparr>) \<and>
   getFromPath h reg readmeData ''name.#'' readmeYAML =
     (Result0 h)\<lparr>Type := Number, Num := float64 h 2, Raw := ''2''\<rparr>"
proof -
  have sp: "splitPath ''name.#'' = [''name'', ''#'']" by code_simp
  have cf: "hasComplexFeatures ''name.#'' = False" by code_simp
  have at: "strconv_Atoi ''name'' = None" "strconv_Atoi ''#'' = None" by code_simp+
  have fk: "findKeyLine (firstIndent (strings_Split readmeYAML newline)) (''name'' @ '':'')
             (strings_Split readmeYAML newline)
            = Some (''name:'', 0, tl (strings_Split readmeYAML newline))" by code_simp
  have vp: "strings_TrimSpace (drop (length (''name'' @ '':'')) ''name:'') = []" by code_simp
  have cn: "collectNested 0 (tl (strings_Split readmeYAML newline))
            = [''first: Tom'', ''last: Anderson'']" by code_simp
  have jn: "strings_Join [''first: Tom'', ''last: Anderson''] [newline]
            = ''first: Tom\<newline>last: Anderson''" by code_simp
  have ce: "countArrayElements ''first: Tom\<newline>last: Anderson'' = 0" by code_simp
  have it: "strconv_Itoa 0 = ''0''" "strconv_Itoa 2 = ''2''" by code_simp+
  have cnt: "fastParsePath h ''first: Tom\<newline>last: Anderson'' [''name'', ''#''] (Suc 0)
      = Inr ((Result0 h)\<lparr>Type := Number, Num := float64 h 0, Raw := ''0''\<rparr>, True)"
    by (subst fastParsePath.simps) (simp add: at ce it)
  have key: "fastParseKey h readmeYAML [''name'', ''#''] 0 ''name''
      = Inr ((Result0 h)\<lparr>Type := Number, Num := float64 h 0, Raw := ''0''\<rparr>, True)"
    by (subst fastParseKey.simps) (simp only: fk vp cn jn option.case prod.case, simp add: cnt)
  have pp: "fastParsePath h readmeYAML [''name'', ''#''] 0
      = Inr ((Result0 h)\<lparr>Type := Number, Num := float64 h 0, Raw := ''0''\<rparr>, True)"
    by (subst fastParsePath.simps) (simp add: at key)
  have fg: "fastGet h readmeYAML ''name.#''
      = Inr ((Result0 h)\<lparr>Type := Number, Num := float64 h 0, Raw := ''0''\<rparr>, True)"
    by (simp add: fastGet_def sp cf pp)
  have fast: "Get h reg readmeYAML ''name.#'' =
     Inr ((Result0 h)\<lparr>Type := Number, Num := float64 h 0, Raw := ''0''\<rparr>)"
    by (simp add: Get_def fg)
  have ps: "parsePath ''name.#'' =
      [pathComponent0\<lparr>key := ''name''\<rparr>, pathComponent0\<lparr>isCount := True\<rparr>]"
    by code_simp
  have tp: "traversePath h reg readmeData (parsePath ''name.#'') readmeYAML =
     (Result0 h)\<lparr>Type := Number, Num := float64 h 2, Raw := ''2''\<rparr>"
    unfolding ps
    apply (subst traversePath.simps(2))
    apply (simp add: pathComponent0_def readmeData_def)
    apply (subst traversePath.simps(2))
    apply (simp add: it)
    done
  have slow: "getFromPath h reg readmeData ''name.#'' readmeYAML =
     (Result0 h)\<lparr>Type := Number, Num := float64 h 2, Raw := ''2''\<rparr>"
    unfolding getFromPath_def using tp by (simp add: ps)
  show ?thesis using fast slow by simp
qed

text \<open>
  C3. On the document \<open>tags: [a, b]\<close> and the path \<open>tags.#\<close> the fast path answers
  (\<^verbatim>\<open>ok = true\<close>) with the number 0, and the traversal engine on the parsed document,
  a mapping from \<open>tags\<close> to a sequence of two strings, returns the number 2.
\<close>

theorem fastGet_differs_from_traversal:
  "fastGet h ''tags: [a, b]'' ''tags.#'' =
     Inr ((Result0 h)\<lparr>Type := Number, Num := float64 h 0, Raw := ''0''\<rparr>, True) \<and>
   getFromPath h reg (YMap [(''tags'', YSeq [YStr ''a'', YStr ''b''])]) ''tags.#''
       ''tags: [a, b]'' =
     (Result0 h)\<lparr>Type := Number, Num := float64 h 2, Raw := ''2''\<rparr>"
proof -
  have sp: "splitPath ''tags.#'' = [''tags'', ''#'']" by code_simp
  have cf: "hasComplexFeatures ''tags.#'' = False" by code_simp
  have at: "strconv_Atoi ''tags'' = None" "strconv_Atoi ''#'' = None" by code_simp+
  have fk: "findKeyLine (firstIndent (strings_Split ''tags: [a, b]'' newline)) (''tags'' @ '':'')
             (strings_Split ''tags: [a, b]'' newline)
            = Some (''tags: [a, b]'', 0, [])" by code_simp
  have vp: "strings_TrimSpace (drop (length (''tags'' @ '':'')) ''tags: [a, b]'') = ''[a, b]''"
    by code_simp
  have ce: "countArrayElements ''[a, b]'' = 0" by code_simp
  have it: "strconv_Itoa 0 = ''0''" "strconv_Itoa 2 = ''2''" by code_simp+
  have cnt: "fastParsePath h ''[a, b]'' [''tags'', ''#''] (Suc 0)
      = Inr ((Result0 h)\<lparr>Type := Number, Num := float64 h 0, Raw := ''0''\<rparr>, True)"
    by (subst fastParsePath.simps) (simp add: at ce it)
  have key: "fastParseKey h ''tags: [a, b]'' [''tags'', ''#''] 0 ''tags''
      = Inr ((Result0 h)\<lparr>Type := Number, Num := float64 h 0, Raw := ''0''\<rparr>, True)"
    by (subst fastParseKey.simps) (simp only: fk vp option.case prod.case, simp add: cnt)
  have pp: "fastParsePath h ''tags: [a, b]'' [''tags'', ''#''] 0
      = Inr ((Result0 h)\<lparr>Type := Number, Num := float64 h 0, Raw := ''0''\<rparr>, True)"
    by (subst fastParsePath.simps) (simp add: at key)
  have fg: "fastGet h ''tags: [a, b]'' ''tags.#''
      = Inr ((Result0 h)\<lparr>Type := Number, Num := float64 h 0, Raw := ''0''\<rparr>, True)"
    by (simp add: fastGet_def sp cf pp)
  have ps: "parsePath ''tags.#'' =
      [pathComponent0\<lparr>key := ''tags''\<rparr>, pathComponent0\<lparr>isCount := True\<rparr>]"
    by code_simp
  have tp: "traversePath h reg (YMap [(''tags'', YSeq [YStr ''a'', YStr ''b''])])
       (parsePath ''tags.#'') ''tags: [a, b]'' =
     (Result0 h)\<lparr>Type := Number, Num := float64 h 2, Raw := ''2''\<rparr>"
    unfolding ps
    apply (subst traversePath.simps(2))
    apply (simp add: pathComponent0_def)
    apply (subst traversePath.simps(2))
    apply (simp add: it)
    done
  have slow: "getFromPath h reg (YMap [(''tags'', YSeq [YStr ''a'', YStr ''b''])]) ''tags.#''
       ''tags: [a, b]'' = (Result0 h)\<lparr>Type := Number, Num := float64 h 2, Raw := ''2''\<rparr>"
    unfolding getFromPath_def using tp by (simp add: ps)
  show ?thesis using fg slow by simp
qed

section \<open>Pipes and nested queries on the document of README.md\<close>

text \<open>
  A path after a modifier is dropped, whatever the registry: when the tail after the
  pipe does not start with \<open>@\<close>, \<^verbatim>\<open>applyModifier\<close> returns the data it was called with.
\<close>

lemma strings_Index_absent: "c \<notin> set s \<Longrightarrow> strings_Index s [c] = None"
  by (induction s) (auto simp: strings_HasPrefix_def)

lemma strings_Index_first:
  "c \<notin> set s \<Longrightarrow> strings_Index (s @ c # t) [c] = Some (length s)"
  by (induction s) (auto simp: strings_HasPrefix_def)

lemma applyModifier_path_tail:
  assumes name: "CHR '':'' \<notin> set name" "CHR ''|'' \<notin> set name"
    and tail: "CHR '':'' \<notin> set tail" "\<not> strings_HasPrefix tail ''@''"
  shows "applyModifier h reg data (''@'' @ name @ ''|'' @ tail) yamlStr = valueToResult h data"
proof -
  let ?path = "''@'' @ name @ ''|'' @ tail"
  have nocolon: "strings_Index ?path '':'' = None"
    using name(1) tail(1) by (intro strings_Index_absent) auto
  have mn: "modNameOf ?path = name @ ''|'' @ tail"
    by (simp only: modNameOf_def nocolon option.case) simp
  have ix: "strings_Index (name @ ''|'' @ tail) ''|'' = Some (length name)"
    using strings_Index_first [OF name(2), of tail] by simp
  have hp: "strings_HasPrefix ?path ''@''" by (simp add: strings_HasPrefix_def)
  have tl: "applyModifier h reg data tail y = valueToResult h data" for y
    by (subst applyModifier.simps) (simp add: tail(2))
  show ?thesis
    apply (subst applyModifier.simps)
    apply (simp only: hp mn ix option.case not_True_eq_False if_False)
    apply (simp add: tl applyModifier_last_def split: option.splits)
    done
qed

text \<open>
  C4. On the document of README.md, \<^verbatim>\<open>Get\<close> with the path \<open>children|@reverse|0\<close> returns
  the whole \<open>children\<close> sequence, in its original order, as a result of kind \<^verbatim>\<open>YAML\<close>:
  after the modifier, \<^verbatim>\<open>applyModifier\<close> is called with the tail \<open>0\<close>, which does not start
  with \<open>@\<close>, and returns the data it was given; the output of the modifier is dropped
  and the tail is not evaluated as a path. The result is the same for every registry.
\<close>

theorem Get_path_after_modifier:
  assumes "yaml_Unmarshal h readmeYAML = Some readmeData"
  shows "Get h reg readmeYAML ''children|@reverse|0'' =
           Inr ((Result0 h)\<lparr>Type := YAML,
                 Raw := yaml_Marshal h (YSeq [YStr ''Sara'', YStr ''Alex'', YStr ''Jack''])\<rparr>)"
proof -
  have cf: "hasComplexFeatures ''children|@reverse|0''" by code_simp
  have pp: "parsePath ''children|@reverse|0'' =
      [pathComponent0\<lparr>key := ''children''\<rparr>,
       pathComponent0\<lparr>pipe := ''@reverse|0'', hasPipe := True\<rparr>]"
    by code_simp
  have hp: "strings_HasPrefix ''@reverse|0'' ''@''" "\<not> strings_HasPrefix ''0'' ''@''"
    by code_simp+
  have mn: "modNameOf ''@reverse|0'' = ''reverse|0''" by code_simp
  have ma: "modArgOf ''@reverse|0'' = []" by code_simp
  have ix: "strings_Index ''reverse|0'' ''|'' = Some 7" by code_simp
  have tail: "applyModifier h reg data ''0'' y = valueToResult h data" for data y
    by (subst applyModifier.simps) (simp add: hp)
  have am: "applyModifier h reg data ''@reverse|0'' y = valueToResult h data" for data y
    apply (subst applyModifier.simps)
    apply (simp only: hp mn ix ma option.case not_True_eq_False if_False)
    apply (simp add: tail applyModifier_last_def split: option.splits)
    done
  have tr: "traversePath h reg readmeData (parsePath ''children|@reverse|0'') readmeYAML
      = valueToResult h readmeChildren"
    unfolding pp
    apply (subst traversePath.simps(2))
    apply (simp add: pathComponent0_def readmeData_def)
    apply (subst traversePath.simps(2))
    apply (simp add: am)
    done
  have gp: "getFromPath h reg readmeData ''children|@reverse|0'' readmeYAML
      = valueToResult h readmeChildren"
    unfolding getFromPath_def using tr by (simp add: pp)
  show ?thesis
    by (simp add: Get_def fastGet_complex [OF cf] assms gp valueToResult_def readmeChildren_def)
qed

theorem Get_path_after_modifier_witness:
  "yaml_Unmarshal testHost readmeYAML = Some readmeData \<and>
   Get testHost (modifiers testHost) readmeYAML ''children|@reverse|0'' =
     Inr \<lparr>Type = YAML, Raw = ''- Sara\<newline>- Alex\<newline>- Jack\<newline>'', Str = [], Num = 0,
          Index = 0, Indexes = []\<rparr>"
proof -
  have a: "yaml_Unmarshal testHost readmeYAML = Some readmeData"
    by (simp add: testHost_def testUnmarshal_def)
  show ?thesis
    using Get_path_after_modifier [of testHost "modifiers testHost", OF a] a
    by (simp add: testHost_def testMarshal_def Result0_def readmeChildren_def)
qed

text \<open>
  C5. On the document of README.md, \<^verbatim>\<open>Get\<close> with the path
  \<open>friends.#(nets.#(=="fb"))#.first\<close> returns the empty sequence. \<^verbatim>\<open>evaluateQuery\<close> splits
  the query body at its first \<open>==\<close> into the key \<open>nets.#(\<close> and the value \<open>fb")\<close>;
  \<^verbatim>\<open>getValueByKey\<close> looks the key up by plain descent through mappings, finds the sequence
  \<open>nets\<close> where it wants a mapping and yields nil, whose printed form \<open><nil>\<close> differs from
  the value. No friend matches; the traversal engine is not entered again.
\<close>

theorem Get_nested_query:
  assumes "yaml_Unmarshal h readmeYAML = Some readmeData"
  shows "Get h reg readmeYAML ''friends.#(nets.#(==\"fb\"))#.first'' =
           Inr ((Result0 h)\<lparr>Type := YAML, Raw := yaml_Marshal h (YSeq [])\<rparr>)"
proof -
  let ?path = "''friends.#(nets.#(==\"fb\"))#.first''"
  let ?q = "''nets.#(==\"fb\")''"
  have cf: "hasComplexFeatures ?path" by code_simp
  have pp: "parsePath ?path =
      [pathComponent0\<lparr>key := ''friends''\<rparr>,
       pathComponent0\<lparr>isQuery := True, query := ?q, multi := True\<rparr>,
       pathComponent0\<lparr>key := ''first''\<rparr>]"
    by code_simp
  have fo: "findOperator ?q queryOperators = Some (''nets.#('', ''=='', ''\"fb\")'')"
    by code_simp
  have tr: "strings_Trim ''\"fb\")'' [CHR 0x22, CHR 0x27] = ''fb\")''" by code_simp
  have ct: "strings_Contains ''nets.#('' ''.''" by code_simp
  have sp: "strings_Split ''nets.#('' (CHR ''.'') = [''nets'', ''#('']" by code_simp
  have ev: "\<not> evaluateQuery h
              (YMap ((''first'', a) # (''last'', b) # (''age'', c) # [(''nets'', YSeq ns)])) ?q"
    for a b c ns
    by (simp add: evaluateQuery_def fo tr getValueByKey_def ct sp mapIndex_def
        compareValues_def fmt_Sprint_def)
  have hq: "handleQuery h readmeFriends
       (pathComponent0\<lparr>isQuery := True, query := ?q, multi := True\<rparr>) rest = YSeq []" for rest
    by (simp add: handleQuery_def readmeFriends_def ev pathComponent0_def)
  have tp: "traversePath h reg readmeData (parsePath ?path) readmeYAML = valueToResult h (YSeq [])"
    unfolding pp
    apply (subst traversePath.simps(2))
    apply (simp add: pathComponent0_def readmeData_def)
    apply (subst traversePath.simps(2))
    apply (simp add: hq [unfolded pathComponent0_def, simplified])
    done
  have gp: "getFromPath h reg readmeData ?path readmeYAML = valueToResult h (YSeq [])"
    unfolding getFromPath_def using tp by (simp add: pp)
  show ?thesis
    by (simp add: Get_def fastGet_complex [OF cf] assms gp valueToResult_def)
qed

theorem Get_nested_query_witness:
  "yaml_Unmarshal testHost readmeYAML = Some readmeData \<and>
   Get testHost (modifiers testHost) readmeYAML ''friends.#(nets.#(==\"fb\"))#.first'' =
     Inr \<lparr>Type = YAML, Raw = ''[]\<newline>'', Str = [], Num = 0, Index = 0, Indexes = []\<rparr> \<and>
   Array testHost \<lparr>Type = YAML, Raw = ''[]\<newline>'', Str = [], Num = 0, Index = 0, Indexes = []\<rparr>
     = []"
proof -
  have a: "yaml_Unmarshal testHost readmeYAML = Some readmeData"
    by (simp add: testHost_def testUnmarshal_def)
  have b: "Array testHost
      \<lparr>Type = YAML, Raw = ''[]\<newline>'', Str = [], Num = 0, Index = 0, Indexes = []\<rparr> = []"
    by code_simp
  show ?thesis
    using Get_nested_query [of testHost "modifiers testHost", OF a] a b
    by (simp add: testHost_def testMarshal_def Result0_def readmeChildren_def)
qed


section \<open>Queries: the first match and all matches\<close>






















section \<open>A wildcard that matches no key\<close>

lemma hasComplexFeatures_wild: "strings_ContainsAny k ''*?'' \<Longrightarrow> hasComplexFeatures k"
  by (induction k) (auto simp: strings_ContainsAny_def)

lemma parsePath_loop_key:
  assumes "CHR 0x5C \<notin> set k" "CHR ''#'' \<notin> set k" "CHR ''|'' \<notin> set k" "CHR ''.'' \<notin> set k"
  shows "parsePath_loop (k @ suffix) ps cur False d False
           = parsePath_loop suffix ps (cur @ k) False d False"
  using assms by (induction k arbitrary: cur) auto

lemma traversePath_wildcard_no_match:
  assumes "isWild p" "plainComponent p" "\<forall>(kk, v) \<in> set m. \<not> matchPattern kk (key p)"
  shows "traversePath h reg (YMap m) [p] orig = valueToResult h (YSeq [])"
proof -
  have "filter (\<lambda>(kk, val). matchPattern kk (key p)) m = []"
    using assms(3) by (auto simp: filter_empty_conv)
  then show ?thesis
    using assms(1,2) by (simp add: traversePath.simps(2) plainComponent_def)
qed

text \<open>
  C10. When the current value is a mapping \<open>m\<close> and the final component is a wildcard key
  \<open>k\<close> (it contains \<open>*\<close> or \<open>?\<close>) that matches no key of \<open>m\<close>, the traversal returns an
  existent result of kind \<^verbatim>\<open>YAML\<close> whose raw text is the printed empty sequence, not the
  \<^verbatim>\<open>Null\<close> result; and so does \<^verbatim>\<open>Get\<close> on a document that parses to \<open>m\<close> with the path \<open>k\<close>
  (a single component: no backslash, \<open>#\<close>, \<open>|\<close> or dot, not starting with \<open>@\<close>). The lemma
  before it is the same fact for any wildcard component; as \<^verbatim>\<open>traversePath\<close> recurses with
  the current value and the remaining components, it covers a wildcard at the end of a
  longer path.
\<close>

theorem Get_wildcard_no_match:
  assumes um: "yaml_Unmarshal h D = Some (YMap m)"
    and wild: "strings_ContainsAny k ''*?''"
    and k: "CHR 0x5C \<notin> set k" "CHR ''#'' \<notin> set k" "CHR ''|'' \<notin> set k" "CHR ''.'' \<notin> set k"
      "hd k \<noteq> CHR ''@''"
    and nomatch: "\<forall>(kk, v) \<in> set m. \<not> matchPattern kk k"
  shows "traversePath h reg (YMap m) [parseComponent k] D
           = (Result0 h)\<lparr>Type := YAML, Raw := yaml_Marshal h (YSeq [])\<rparr> \<and>
         Get h reg D k = Inr ((Result0 h)\<lparr>Type := YAML, Raw := yaml_Marshal h (YSeq [])\<rparr>) \<and>
         Exists ((Result0 h)\<lparr>Type := YAML, Raw := yaml_Marshal h (YSeq [])\<rparr>)"
proof -
  have ne: "k \<noteq> []" using wild by (auto simp: strings_ContainsAny_def)
  then obtain c cs where c: "k = c # cs" by (cases k) auto
  then have hd: "k ! 0 = c" "hd k = c" "c \<noteq> CHR ''.''" "c \<noteq> CHR ''@''"
    using k by auto
  have pc: "parseComponent k = pathComponent0\<lparr>key := k, isWild := True\<rparr>"
    using wild by (simp add: parseComponent_def)
  have pp: "parsePath k = [parseComponent k]"
    using parsePath_loop_key [OF k(1-4), of "[]" "[]" "[]" 0] ne
    by (simp add: parsePath_def flushComponent_def)
  have tp: "traversePath h reg (YMap m) [parseComponent k] D = valueToResult h (YSeq [])"
    by (rule traversePath_wildcard_no_match)
       (use nomatch in \<open>simp_all add: pc plainComponent_def pathComponent0_def\<close>)
  have fg: "fastGet h D k = Inr (Result0 h, False)"
    using hasComplexFeatures_wild [OF wild] ne by (rule fastGet_complex)
  have this_ne: "k \<noteq> ''@this''" using c hd(4) by auto
  have gfp: "getFromPath h reg (YMap m) k D = valueToResult h (YSeq [])"
    unfolding getFromPath_def using hd ne this_ne tp by (simp add: pp)
  have g: "Get h reg D k = Inr (valueToResult h (YSeq []))"
    unfolding Get_def using hd ne fg um gfp c by simp
  show ?thesis using tp g by (simp add: valueToResult_def Exists_def)
qed


theorem Get_wildcard_no_match_witness:
  "yaml_Unmarshal testHost ''a: 1\<newline>'' = Some (YMap [(''a'', YInt 1)]) \<and>
   strings_ContainsAny ''b*'' ''*?'' \<and>
   \<not> matchPattern ''a'' ''b*'' \<and>
   Get testHost (modifiers testHost) ''a: 1\<newline>'' ''b*'' =
     Inr \<lparr>Type = YAML, Raw = ''[]\<newline>'', Str = [], Num = 0, Index = 0, Indexes = []\<rparr> \<and>
   Exists \<lparr>Type = YAML, Raw = ''[]\<newline>'', Str = [], Num = 0 :: int, Index = 0, Indexes = []\<rparr>"
proof -
  have um: "yaml_Unmarshal testHost ''a: 1\<newline>'' = Some (YMap [(''a'', YInt 1)])" by code_simp
  have wild: "strings_ContainsAny ''b*'' ''*?''" by code_simp
  have nm: "\<forall>(kk, v) \<in> set [(''a'', YInt 1 :: int yval)]. \<not> matchPattern kk ''b*''"
    by (simp add: matchPattern_def wildcard_def)
  have side: "CHR 0x5C \<notin> set ''b*''" "CHR ''#'' \<notin> set ''b*''" "CHR ''|'' \<notin> set ''b*''"
    "CHR ''.'' \<notin> set ''b*''" "hd ''b*'' \<noteq> CHR ''@''"
    by simp_all
  have ms: "yaml_Marshal testHost (YSeq []) = ''[]\<newline>''"
    by (simp add: testHost_def testMarshal_def readmeChildren_def)
  have nm1: "\<not> matchPattern ''a'' ''b*''" by (simp add: matchPattern_def wildcard_def)
  from Get_wildcard_no_match [OF um wild side nm, of "modifiers testHost"] um wild nm1 ms
  show ?thesis by (simp add: Result0_def testHost_def)
qed

end
